theory Spec2Isabelle
  imports
    Complex_Main
    "HOL-Library.Char_ord"
    "HOL-Library.List_Lexorder"
    "HOL-Library.Product_Lexorder"
begin

section \<open>PO pivot builder: the transform of \<open>app.py\<close>\<close>

text \<open>
  The program reads a purchase-order CSV with \<open>pandas.read_csv(dtype=str)\<close>, enriches
  every line (vendor code, two style labels, quantity, size), aggregates the lines with
  \<open>pandas.pivot_table\<close> and writes the grid to a spreadsheet.

  Conventions of the embedding.
  \<^item> A cell read by \<open>read_csv(dtype=str)\<close> is a \<open>string option\<close>: \<open>None\<close> is the
    missing value (NaN) that pandas stores for an empty field.
  \<^item> Python floats are exact rationals (\<open>rat\<close>): rounding, and the literals
    \<open>inf\<close>, \<open>nan\<close> and digit groups with underscores, are outside the model.
    A missing number (NaN, or Python's \<open>None\<close> inside a float column) is \<open>None\<close>.
  \<^item> Every \<open>raise\<close> of the source, and of the library calls it makes, is a value
    \<open>Inl e\<close> of the result type \<open>py_error + 'a\<close>.
\<close>

subsection \<open>Strings and numerals of the Python runtime\<close>

datatype py_error = ValueError | ZeroDivisionError | IndexError | KeyError

definition is_space :: "char \<Rightarrow> bool" where
  "is_space c \<longleftrightarrow> c \<in> set [CHR '' '', CHR 0x09, CHR 0x0A, CHR 0x0B, CHR 0x0C, CHR 0x0D,
                           CHR 0x1C, CHR 0x1D, CHR 0x1E, CHR 0x1F]"

text \<open>\<open>str.strip()\<close>: whitespace is removed at both ends.\<close>

definition strip :: "string \<Rightarrow> string" where
  "strip s = rev (dropWhile is_space (rev (dropWhile is_space s)))"

text \<open>\<open>s.split(' ')\<close>: cut at every single space; empty pieces are kept.\<close>

fun split_space :: "string \<Rightarrow> string list" where
  "split_space [] = [[]]"
| "split_space (c # cs) =
     (if c = CHR '' '' then [] # split_space cs
      else (case split_space cs of [] \<Rightarrow> [[c]] | w # ws \<Rightarrow> (c # w) # ws))"

definition is_digit :: "char \<Rightarrow> bool" where
  "is_digit c \<longleftrightarrow> c \<in> set ''0123456789''"

definition digit_val :: "char \<Rightarrow> nat" where
  "digit_val c = of_char c - 48"

definition digits_val :: "string \<Rightarrow> nat" where
  "digits_val s = foldl (\<lambda>a c. 10 * a + digit_val c) 0 s"

definition all_digits :: "string \<Rightarrow> bool" where
  "all_digits s \<longleftrightarrow> s \<noteq> [] \<and> list_all is_digit s"

text \<open>An optional sign: the flag says whether it was a minus.\<close>

fun strip_sign :: "string \<Rightarrow> bool \<times> string" where
  "strip_sign [] = (False, [])"
| "strip_sign (c # cs) =
     (if c = CHR ''-'' then (True, cs)
      else if c = CHR ''+'' then (False, cs)
      else (False, c # cs))"

definition apply_sign :: "bool \<Rightarrow> rat \<Rightarrow> rat" where
  "apply_sign neg v = (if neg then - v else v)"

text \<open>
  The mantissa of a decimal literal, \<open>digits [. [digits]]\<close> or \<open>. digits\<close>, with the
  text that follows it.
\<close>

definition parse_mantissa :: "string \<Rightarrow> (rat \<times> string) option" where
  "parse_mantissa s =
     (let ip = takeWhile is_digit s; r = dropWhile is_digit s in
      case r of
        [] \<Rightarrow> if ip = [] then None else Some (of_nat (digits_val ip), [])
      | c # r' \<Rightarrow>
          if c = CHR ''.'' then
            (let fp = takeWhile is_digit r'; r'' = dropWhile is_digit r' in
             if ip = [] \<and> fp = [] then None
             else Some (of_nat (digits_val (ip @ fp)) / 10 ^ length fp, r''))
          else if ip = [] then None else Some (of_nat (digits_val ip), r))"

text \<open>What may follow the mantissa: nothing, or \<open>e\<close>/\<open>E\<close>, an optional sign and digits.\<close>

definition parse_exponent :: "string \<Rightarrow> int option" where
  "parse_exponent r =
     (case r of
        [] \<Rightarrow> Some 0
      | c # r' \<Rightarrow>
          if c = CHR ''e'' \<or> c = CHR ''E'' then
            (case strip_sign r' of (neg, d) \<Rightarrow>
               if all_digits d
               then Some (if neg then - int (digits_val d) else int (digits_val d))
               else None)
          else None)"

definition scale10 :: "rat \<Rightarrow> int \<Rightarrow> rat" where
  "scale10 m e = (if 0 \<le> e then m * 10 ^ nat e else m / 10 ^ nat (- e))"

text \<open>A signed decimal literal with no whitespace around it.\<close>

definition parse_decimal :: "string \<Rightarrow> rat option" where
  "parse_decimal s =
     (case strip_sign s of (neg, u) \<Rightarrow>
        (case parse_mantissa u of
           None \<Rightarrow> None
         | Some (m, r) \<Rightarrow>
             (case parse_exponent r of
                None \<Rightarrow> None
              | Some e \<Rightarrow> Some (apply_sign neg (scale10 m e)))))"

text \<open>
  \<open>float(s)\<close> on a string: surrounding whitespace is ignored; \<open>None\<close> stands for the
  \<open>ValueError\<close> of a string that is no number.
\<close>

definition py_float :: "string \<Rightarrow> rat option" where
  "py_float s = parse_decimal (strip s)"

text \<open>
  \<open>float(Fraction(s))\<close>: either \<open>num/den\<close> with an optional sign, where a zero
  denominator raises \<open>ZeroDivisionError\<close>, or a decimal literal; anything else raises
  \<open>ValueError\<close>.
\<close>

definition py_Fraction :: "string \<Rightarrow> py_error + rat" where
  "py_Fraction s0 =
     (let s = strip s0 in
      if CHR ''/'' \<in> set s then
        (case strip_sign s of (neg, u) \<Rightarrow>
           (let n = takeWhile (\<lambda>c. c \<noteq> CHR ''/'') u;
                d = drop 1 (dropWhile (\<lambda>c. c \<noteq> CHR ''/'') u) in
            if all_digits n \<and> all_digits d then
              (if digits_val d = 0 then Inl ZeroDivisionError
               else Inr (apply_sign neg (of_nat (digits_val n) / of_nat (digits_val d))))
            else Inl ValueError))
      else (case parse_decimal s of None \<Rightarrow> Inl ValueError | Some v \<Rightarrow> Inr v))"

subsection \<open>The size parser\<close>

text \<open>
  \<^verbatim>\<open>
  def parse_size(size_str):
      if pd.isna(size_str):
          return None
      size_str = str(size_str).strip()
      if ' ' in size_str:
          whole, frac = size_str.split(' ')
          return float(whole) + float(Fraction(frac))
      try:
          return float(size_str)
      except:
          return None
  \<close>
  The unpacking \<open>whole, frac = ...\<close> raises \<open>ValueError\<close> unless the split has exactly
  two pieces; \<open>float\<close> and \<open>Fraction\<close> raise outside the \<open>try\<close>.
\<close>

definition parse_size :: "string option \<Rightarrow> py_error + rat option" where
  "parse_size size_str =
     (case size_str of
        None \<Rightarrow> Inr None
      | Some s0 \<Rightarrow>
          (let s = strip s0 in
           if CHR '' '' \<in> set s then
             (case split_space s of
                [whole_part, frac_part] \<Rightarrow>
                  (case py_float whole_part of
                     None \<Rightarrow> Inl ValueError
                   | Some w \<Rightarrow>
                       (case py_Fraction frac_part of
                          Inl e \<Rightarrow> Inl e
                        | Inr f \<Rightarrow> Inr (Some (w + f))))
              | _ \<Rightarrow> Inl ValueError)
           else (case py_float s of None \<Rightarrow> Inr None | Some v \<Rightarrow> Inr (Some v))))"

subsection \<open>The data frame\<close>

text \<open>
  One line of the uploaded file, restricted to the six columns the program reads
  (\<open>UPC/EAN\<close>, \<open>Qty per Store #\<close>, \<open>Size\<close>, \<open>Color\<close>, \<open>PO Number\<close>, \<open>Ship Dates\<close>).
\<close>

record po_row =
  UPC_EAN :: "string option"
  Qty_per_Store :: "string option"
  Size :: "string option"
  Color :: "string option"
  PO_Number :: "string option"
  Ship_Dates :: "string option"

text \<open>
  \<open>StyleMap.style_map\<close> is not part of the sources: it is a parameter, a dictionary
  from numeric vendor codes to dictionaries of labels, read with
  \<open>style_map.get(x, {}).get(name, 'Unknown Style')\<close>.
\<close>

type_synonym style_map = "rat \<rightharpoonup> (string \<rightharpoonup> string)"

text \<open>
  \<open>pd.to_numeric(..., errors='coerce')\<close> on one cell: a missing cell stays missing, a
  string that is no number becomes missing.
\<close>

definition to_numeric :: "string option \<Rightarrow> rat option" where
  "to_numeric c = (case c of None \<Rightarrow> None | Some s \<Rightarrow> py_float s)"

text \<open>\<open>df['UPC/EAN'].str.strip()\<close> on one cell.\<close>

definition str_strip :: "string option \<Rightarrow> string option" where
  "str_strip c = map_option strip c"

definition vendor_style :: "po_row \<Rightarrow> rat option" where
  "vendor_style r = to_numeric (str_strip (UPC_EAN r))"

definition unknown_style :: string where
  "unknown_style = ''Unknown Style''"

definition style_label :: "style_map \<Rightarrow> string \<Rightarrow> rat option \<Rightarrow> string" where
  "style_label sm name x =
     (case x of
        None \<Rightarrow> unknown_style
      | Some code \<Rightarrow>
          (case sm code of
             None \<Rightarrow> unknown_style
           | Some entry \<Rightarrow>
               (case entry name of None \<Rightarrow> unknown_style | Some l \<Rightarrow> l)))"

text \<open>\<open>.fillna(0)\<close> on one cell.\<close>

definition fillna0 :: "rat option \<Rightarrow> rat" where
  "fillna0 x = (case x of None \<Rightarrow> 0 | Some q \<Rightarrow> q)"

definition qty_of :: "po_row \<Rightarrow> rat" where
  "qty_of r = fillna0 (to_numeric (Qty_per_Store r))"

text \<open>A line of the data frame once the derived columns are in place.\<close>

record df_row =
  df_Color :: "string option"
  df_KPR_Style :: string
  df_Marks_Style :: string
  df_Qty :: rat
  df_Size :: "rat option"

definition enrich_row :: "style_map \<Rightarrow> po_row \<Rightarrow> rat option \<Rightarrow> df_row" where
  "enrich_row sm r sz =
     \<lparr>df_Color = Color r,
      df_KPR_Style = style_label sm ''KPR'' (vendor_style r),
      df_Marks_Style = style_label sm ''Marks'' (vendor_style r),
      df_Qty = qty_of r,
      df_Size = sz\<rparr>"

text \<open>
  Lines 29 to 35. Only \<open>df['Size'].apply(parse_size)\<close> can raise; it visits the lines
  in order and the first exception ends the run.
\<close>

fun enrich :: "style_map \<Rightarrow> po_row list \<Rightarrow> py_error + df_row list" where
  "enrich sm [] = Inr []"
| "enrich sm (r # rs) =
     (case parse_size (Size r) of
        Inl e \<Rightarrow> Inl e
      | Inr sz \<Rightarrow>
          (case enrich sm rs of
             Inl e \<Rightarrow> Inl e
           | Inr df \<Rightarrow> Inr (enrich_row sm r sz # df)))"

text \<open>\<open>column.dropna().iloc[0]\<close>: the first value that is not missing.\<close>

fun first_valid :: "string option list \<Rightarrow> py_error + string" where
  "first_valid [] = Inl IndexError"
| "first_valid (None # cs) = first_valid cs"
| "first_valid (Some s # cs) = Inr s"

subsection \<open>The pivot table\<close>

type_synonym row_key = "string \<times> string \<times> string"

text \<open>
  \<open>pivot_table\<close> groups with \<open>dropna=True\<close>: a line with a missing value in one of the
  grouping columns (\<open>Color\<close>, the two labels, \<open>Size\<close>) is left out of the groups and of
  the margins. What is left of a line is its row key, its size and its quantity.
\<close>

type_synonym obs = "row_key \<times> rat \<times> rat"

definition o_key :: "obs \<Rightarrow> row_key" where
  "o_key x = fst x"

definition o_size :: "obs \<Rightarrow> rat" where
  "o_size x = fst (snd x)"

definition o_qty :: "obs \<Rightarrow> rat" where
  "o_qty x = snd (snd x)"

definition observe :: "df_row \<Rightarrow> obs option" where
  "observe r =
     (case df_Color r of
        None \<Rightarrow> None
      | Some c \<Rightarrow>
          (case df_Size r of
             None \<Rightarrow> None
           | Some s \<Rightarrow> Some ((c, df_KPR_Style r, df_Marks_Style r), s, df_Qty r)))"

definition dropna_rows :: "df_row list \<Rightarrow> obs list" where
  "dropna_rows df = List.map_filter observe df"

definition cell_sum :: "obs list \<Rightarrow> row_key \<Rightarrow> rat \<Rightarrow> rat" where
  "cell_sum d k s = sum_list (map o_qty (filter (\<lambda>x. o_key x = k \<and> o_size x = s) d))"

definition row_total :: "obs list \<Rightarrow> row_key \<Rightarrow> rat" where
  "row_total d k = sum_list (map o_qty (filter (\<lambda>x. o_key x = k) d))"

definition col_total :: "obs list \<Rightarrow> rat \<Rightarrow> rat" where
  "col_total d s = sum_list (map o_qty (filter (\<lambda>x. o_size x = s) d))"

definition all_total :: "obs list \<Rightarrow> rat" where
  "all_total d = sum_list (map o_qty d)"

record pivot_row =
  row_key :: row_key
  cells :: "rat list"
  grand_total :: rat

text \<open>
  The table after \<open>reset_index()\<close>: the size columns in order, whether there is a
  \<open>Grand Total\<close> column, and the rows.
\<close>

record pivot_grid =
  size_cols :: "rat list"
  total_col :: bool
  grid_rows :: "pivot_row list"

definition margins_name :: string where
  "margins_name = ''Grand Total''"

definition margin_key :: row_key where
  "margin_key = (margins_name, [], [])"

definition body_row :: "obs list \<Rightarrow> rat list \<Rightarrow> row_key \<Rightarrow> pivot_row" where
  "body_row d sizes k =
     \<lparr>row_key = k, cells = map (cell_sum d k) sizes, grand_total = row_total d k\<rparr>"

definition margin_row :: "obs list \<Rightarrow> rat list \<Rightarrow> pivot_row" where
  "margin_row d sizes =
     \<lparr>row_key = margin_key, cells = map (col_total d) sizes, grand_total = all_total d\<rparr>"

text \<open>
  \<open>pd.pivot_table(df, index=[Color, KPR Style, Mark's Style], columns=[Size],
  values=Qty per Store #, aggfunc='sum', fill_value=0, margins=True,
  margins_name='Grand Total')\<close> on the lines that \<open>dropna\<close> keeps.
  \<^item> Row keys and column keys are the distinct values, ascending.
  \<^item> With no line left the table is empty and gets no margins.
  \<^item> A row key that contains the margins name in one of its three levels raises
    \<open>ValueError\<close> (conflicting name).
  \<^item> Otherwise every row gets its \<open>Grand Total\<close> cell and one row with the key
    \<open>(Grand Total, '', '')\<close> is appended.
\<close>

definition pivot_table :: "obs list \<Rightarrow> py_error + pivot_grid" where
  "pivot_table d =
     (let keys = sort (remdups (map o_key d));
          sizes = sort (remdups (map o_size d)) in
      if d = [] then Inr \<lparr>size_cols = [], total_col = False, grid_rows = []\<rparr>
      else if \<exists>k \<in> set keys. margins_name \<in> {fst k, fst (snd k), snd (snd k)}
      then Inl ValueError
      else Inr \<lparr>size_cols = sizes, total_col = True,
                grid_rows = map (body_row d sizes) keys @ [margin_row d sizes]\<rparr>)"

text \<open>Line 52: \<open>pivot = pivot[~pivot['Color'].eq('All')]\<close>.\<close>

definition drop_All :: "pivot_grid \<Rightarrow> pivot_grid" where
  "drop_All g = g\<lparr>grid_rows := filter (\<lambda>r. fst (row_key r) \<noteq> ''All'') (grid_rows g)\<rparr>"

text \<open>
  Lines 53 and 54: the size columns are sorted and the table is re-indexed by
  \<open>[Color, KPR Style, Mark's Style] + size_cols + [Grand Total]\<close>; a table without a
  \<open>Grand Total\<close> column raises \<open>KeyError\<close>.
\<close>

definition select_cells :: "rat list \<Rightarrow> rat list \<Rightarrow> rat list \<Rightarrow> rat list" where
  "select_cells cols sel vals = List.map_filter (map_of (zip cols vals)) sel"

definition select_columns :: "pivot_grid \<Rightarrow> py_error + pivot_grid" where
  "select_columns g =
     (let sel = sort (size_cols g) in
      if \<not> total_col g then Inl KeyError
      else Inr \<lparr>size_cols = sel, total_col = True,
                grid_rows = map (\<lambda>r. r\<lparr>cells := select_cells (size_cols g) sel (cells r)\<rparr>)
                              (grid_rows g)\<rparr>)"

subsection \<open>The transform\<close>

text \<open>
  What \<open>generate_pivot_excel\<close> puts into the workbook: the table of line 54, the PO
  number of the banner and the ship date of the last row. The PO number is also the
  second component of the returned pair. Fonts, fills, borders and widths are not
  modelled.
\<close>

record pivot_excel =
  xl_table :: pivot_grid
  xl_po_number :: string
  xl_ship_date :: string

definition build_pivot :: "df_row list \<Rightarrow> py_error + pivot_grid" where
  "build_pivot df =
     (case pivot_table (dropna_rows df) of
        Inl e \<Rightarrow> Inl e
      | Inr pv \<Rightarrow> select_columns (drop_All pv))"

definition generate_pivot_excel :: "style_map \<Rightarrow> po_row list \<Rightarrow> py_error + pivot_excel" where
  "generate_pivot_excel sm t =
     (case enrich sm t of
        Inl e \<Rightarrow> Inl e
      | Inr df \<Rightarrow>
          (case first_valid (map PO_Number t) of
             Inl e \<Rightarrow> Inl e
           | Inr po \<Rightarrow>
               (case first_valid (map Ship_Dates t) of
                  Inl e \<Rightarrow> Inl e
                | Inr sd \<Rightarrow>
                    (case build_pivot df of
                       Inl e \<Rightarrow> Inl e
                     | Inr g \<Rightarrow>
                         Inr \<lparr>xl_table = g, xl_po_number = po, xl_ship_date = sd\<rparr>))))"

subsection \<open>Example inputs\<close>

text \<open>
  The inputs of the worked examples: a style table with one vendor code, and a line
  with the PO number and the ship date of the specification's end-to-end scenario.
\<close>

definition example_styles :: style_map where
  "example_styles = [1001 \<mapsto> [''KPR'' \<mapsto> ''StyleA'', ''Marks'' \<mapsto> ''StyleX'']]"

definition example_row :: "string \<Rightarrow> string \<Rightarrow> string \<Rightarrow> string \<Rightarrow> po_row" where
  "example_row upc qty sz col =
     \<lparr>UPC_EAN = Some upc, Qty_per_Store = Some qty, Size = Some sz, Color = Some col,
      PO_Number = Some ''PO123'', Ship_Dates = Some ''2024-01-01''\<rparr>"

text \<open>
  The end-to-end scenario: two lines of colour \<open>Red\<close> and vendor code 1001, sizes \<open>8\<close>
  and \<open>8 1/2\<close>, quantities 3 and 5; and the workbook content the transform returns
  for it.
\<close>

definition example_table :: "po_row list" where
  "example_table =
     [example_row ''1001'' ''3'' ''8'' ''Red'', example_row ''1001'' ''5'' ''8 1/2'' ''Red'']"

definition example_sheet :: pivot_excel where
  "example_sheet =
     \<lparr>xl_table =
        \<lparr>size_cols = [8, 17 / 2], total_col = True,
         grid_rows =
           [\<lparr>row_key = (''Red'', ''StyleA'', ''StyleX''), cells = [3, 5], grand_total = 8\<rparr>,
            \<lparr>row_key = (''Grand Total'', [], []), cells = [3, 5], grand_total = 8\<rparr>]\<rparr>,
      xl_po_number = ''PO123'', xl_ship_date = ''2024-01-01''\<rparr>"

section \<open>Properties\<close>

subsection \<open>Digit strings through the parsers\<close>
















subsection \<open>The data frame and the pivot, as functions of the input lines\<close>

lemma enrich_Inr:
  "enrich sm t = Inr df \<Longrightarrow>
     df = map (\<lambda>x. enrich_row sm x (projr (parse_size (Size x)))) t \<and>
     (\<forall>x \<in> set t. \<exists>z. parse_size (Size x) = Inr z)"
  by (induction t arbitrary: df) (auto split: sum.splits)

lemma observe_enrich_row:
  "observe (enrich_row sm x z) =
     (case Color x of None \<Rightarrow> None
      | Some c \<Rightarrow> (case z of None \<Rightarrow> None
          | Some s \<Rightarrow> Some ((c, style_label sm ''KPR'' (vendor_style x),
                             style_label sm ''Marks'' (vendor_style x)), s, qty_of x)))"
  by (simp add: observe_def enrich_row_def split: option.splits)

lemma sum_map_filter:
  assumes "\<And>x o'. g x = Some o' \<Longrightarrow> f o' = q x"
  shows "sum_list (map f (filter Q (List.map_filter g xs))) =
         sum_list (map q (filter (\<lambda>x. \<exists>o'. g x = Some o' \<and> Q o') xs))"
  using assms by (induction xs) (auto split: option.splits)

lemma map_filter_all_Some:
  "(\<And>x. x \<in> set ys \<Longrightarrow> g x = Some (f x)) \<Longrightarrow> List.map_filter g ys = map f ys"
  by (induction ys) auto

lemma map_of_zip_map_Some:
  "x \<in> set xs \<Longrightarrow> map_of (zip xs (map f xs)) x = Some (f x)"
  by (induction xs) auto

lemma select_cells_id: "select_cells cols cols (map f cols) = map f cols"
  unfolding select_cells_def
  by (rule map_filter_all_Some) (rule map_of_zip_map_Some)

lemma sort_sort_remdups: "sort (sort (remdups xs)) = sort (remdups xs)"
  by (simp add: sorted_sort_id)

lemma build_pivot_Inr:
  assumes "build_pivot df = Inr g"
  shows "dropna_rows df \<noteq> []"
    and "total_col g"
    and "size_cols g = sort (remdups (map o_size (dropna_rows df)))"
    and "grid_rows g =
           map (body_row (dropna_rows df) (size_cols g))
             (filter (\<lambda>k. fst k \<noteq> ''All'') (sort (remdups (map o_key (dropna_rows df)))))
           @ [margin_row (dropna_rows df) (size_cols g)]"
    and "\<forall>k \<in> set (map o_key (dropna_rows df)). fst k \<noteq> margins_name"
proof -
  let ?d = "dropna_rows df"
  let ?keys = "sort (remdups (map o_key ?d))"
  let ?sizes = "sort (remdups (map o_size ?d))"
  let ?pv = "\<lparr>size_cols = ?sizes, total_col = True,
              grid_rows = map (body_row ?d ?sizes) ?keys @ [margin_row ?d ?sizes]\<rparr>"
  have ne: "?d \<noteq> []"
    using assms by (auto simp: build_pivot_def pivot_table_def select_columns_def drop_All_def Let_def
        split: if_splits)
  have nc: "\<not> (\<exists>k \<in> set ?keys. margins_name \<in> {fst k, fst (snd k), snd (snd k)})"
    using assms ne by (auto simp: build_pivot_def pivot_table_def Let_def split: if_splits)
  have pv: "pivot_table ?d = Inr ?pv"
    using ne nc by (simp add: pivot_table_def Let_def)
  have g: "g = \<lparr>size_cols = ?sizes, total_col = True,
             grid_rows = map (\<lambda>r. r\<lparr>cells := select_cells ?sizes ?sizes (cells r)\<rparr>)
               (filter (\<lambda>r. fst (row_key r) \<noteq> ''All'') (grid_rows ?pv))\<rparr>"
    using assms unfolding build_pivot_def pv
    by (simp add: select_columns_def drop_All_def Let_def sort_sort_remdups)
  show "?d \<noteq> []" by (rule ne)
  show "total_col g" by (simp add: g)
  show sz: "size_cols g = ?sizes" by (simp add: g)
  show "grid_rows g = map (body_row ?d (size_cols g)) (filter (\<lambda>k. fst k \<noteq> ''All'') ?keys)
           @ [margin_row ?d (size_cols g)]"
    unfolding sz
    by (simp add: g filter_map comp_def body_row_def margin_row_def margin_key_def margins_name_def
        select_cells_id)
  show "\<forall>k \<in> set (map o_key ?d). fst k \<noteq> margins_name"
    using nc by auto
qed

lemma enrich_nth:
  "enrich sm t = Inr df \<Longrightarrow> i < length t \<Longrightarrow>
     df ! i = enrich_row sm (t ! i) (projr (parse_size (Size (t ! i))))"
  by (drule enrich_Inr) simp

lemma generate_Inr:
  "generate_pivot_excel sm t = Inr out \<Longrightarrow>
     \<exists>df. enrich sm t = Inr df \<and> build_pivot df = Inr (xl_table out) \<and>
       first_valid (map PO_Number t) = Inr (xl_po_number out) \<and>
       first_valid (map Ship_Dates t) = Inr (xl_ship_date out)"
  by (auto simp: generate_pivot_excel_def split: sum.splits)

lemma set_map_filter: "set (List.map_filter g xs) = {y. \<exists>x \<in> set xs. g x = Some y}"
  by (induction xs) (auto split: option.splits)

lemma set_dropna_enrich:
  assumes "enrich sm t = Inr df"
  shows "set (dropna_rows df) =
    {((c, style_label sm ''KPR'' (vendor_style x), style_label sm ''Marks'' (vendor_style x)),
       s, qty_of x) | x c s. x \<in> set t \<and> Color x = Some c \<and> parse_size (Size x) = Inr (Some s)}"
proof -
  have df: "df = map (\<lambda>x. enrich_row sm x (projr (parse_size (Size x)))) t"
    and ok: "\<forall>x \<in> set t. \<exists>z. parse_size (Size x) = Inr z"
    using enrich_Inr [OF assms] by auto
  show ?thesis
    unfolding dropna_rows_def set_map_filter df
    using ok by (auto simp: observe_enrich_row split: option.splits) force+
qed

subsection \<open>Sums of quantities\<close>

lemma map_filter_map: "List.map_filter g (map h xs) = List.map_filter (\<lambda>x. g (h x)) xs"
  by (induction xs) (auto split: option.splits)

lemma obs_sum_input:
  assumes "enrich sm t = Inr df"
  shows "sum_list (map o_qty (filter Q (dropna_rows df))) =
    sum_list (map qty_of (filter (\<lambda>x. \<exists>c s. Color x = Some c \<and> parse_size (Size x) = Inr (Some s) \<and>
        Q ((c, style_label sm ''KPR'' (vendor_style x), style_label sm ''Marks'' (vendor_style x)),
           s, qty_of x)) t))"
proof -
  let ?h = "\<lambda>x. enrich_row sm x (projr (parse_size (Size x)))"
  have df: "df = map ?h t" and ok: "\<forall>x \<in> set t. \<exists>z. parse_size (Size x) = Inr z"
    using enrich_Inr [OF assms] by auto
  have q: "o_qty o' = qty_of x" if "observe (?h x) = Some o'" for x o'
    using that by (auto simp: observe_enrich_row o_qty_def split: option.splits)
  have "sum_list (map o_qty (filter Q (dropna_rows df))) =
      sum_list (map qty_of (filter (\<lambda>x. \<exists>o'. observe (?h x) = Some o' \<and> Q o') t))"
    unfolding dropna_rows_def df map_filter_map
    by (rule sum_map_filter) (rule q)
  also have "filter (\<lambda>x. \<exists>o'. observe (?h x) = Some o' \<and> Q o') t =
     filter (\<lambda>x. \<exists>c s. Color x = Some c \<and> parse_size (Size x) = Inr (Some s) \<and>
        Q ((c, style_label sm ''KPR'' (vendor_style x), style_label sm ''Marks'' (vendor_style x)),
           s, qty_of x)) t"
    using ok by (intro filter_cong refl) (auto simp: observe_enrich_row split: option.splits)
  finally show ?thesis .
qed







subsection \<open>Cells and totals over the input lines\<close>

lemma cell_sum_input:
  assumes "enrich sm t = Inr df"
  shows "cell_sum (dropna_rows df) k s =
    sum_list (map qty_of (filter (\<lambda>x. Color x = Some (fst k) \<and>
        style_label sm ''KPR'' (vendor_style x) = fst (snd k) \<and>
        style_label sm ''Marks'' (vendor_style x) = snd (snd k) \<and>
        parse_size (Size x) = Inr (Some s)) t))"
  unfolding cell_sum_def obs_sum_input [OF assms]
  by (intro arg_cong [where f = sum_list] arg_cong [where f = "map qty_of"] filter_cong refl)
     (auto simp: o_key_def o_size_def)

lemma col_total_input:
  assumes "enrich sm t = Inr df"
  shows "col_total (dropna_rows df) s =
    sum_list (map qty_of (filter (\<lambda>x. Color x \<noteq> None \<and> parse_size (Size x) = Inr (Some s)) t))"
  unfolding col_total_def obs_sum_input [OF assms]
  by (intro arg_cong [where f = sum_list] arg_cong [where f = "map qty_of"] filter_cong refl)
     (auto simp: o_size_def)

lemma all_total_input:
  assumes "enrich sm t = Inr df"
  shows "all_total (dropna_rows df) =
    sum_list (map qty_of (filter (\<lambda>x. Color x \<noteq> None \<and> (\<exists>s. parse_size (Size x) = Inr (Some s))) t))"
proof -
  have "all_total (dropna_rows df) = sum_list (map o_qty (filter (\<lambda>x. True) (dropna_rows df)))"
    by (simp add: all_total_def)
  also have "\<dots> = sum_list (map qty_of (filter (\<lambda>x. Color x \<noteq> None \<and>
      (\<exists>s. parse_size (Size x) = Inr (Some s))) t))"
    unfolding obs_sum_input [OF assms]
    by (intro arg_cong [where f = sum_list] arg_cong [where f = "map qty_of"] filter_cong refl) auto
  finally show ?thesis .
qed

text \<open>The rows of a returned table: body rows for the keys other than \<open>All\<close>, then the margins.\<close>

lemma rendered_rows:
  assumes "generate_pivot_excel sm t = Inr out"
  obtains df where "enrich sm t = Inr df"
    and "size_cols (xl_table out) = sort (remdups (map o_size (dropna_rows df)))"
    and "grid_rows (xl_table out) =
           map (body_row (dropna_rows df) (size_cols (xl_table out)))
             (filter (\<lambda>k. fst k \<noteq> ''All'') (sort (remdups (map o_key (dropna_rows df)))))
           @ [margin_row (dropna_rows df) (size_cols (xl_table out))]"
    and "\<forall>k \<in> set (map o_key (dropna_rows df)). fst k \<noteq> margins_name"
    and "total_col (xl_table out)"
proof -
  from generate_Inr [OF assms] obtain df where
    e: "enrich sm t = Inr df" and b: "build_pivot df = Inr (xl_table out)" by blast
  show thesis
    using that [OF e] build_pivot_Inr [OF b] by blast
qed

subsection \<open>Lines that do not matter\<close>

lemma enrich_append:
  "enrich sm (xs @ ys) =
     (case enrich sm xs of Inl e \<Rightarrow> Inl e
      | Inr a \<Rightarrow> (case enrich sm ys of Inl e \<Rightarrow> Inl e | Inr b \<Rightarrow> Inr (a @ b)))"
  by (induction xs) (auto split: sum.splits)


lemma dropna_rows_absent:
  "dropna_rows (a @ enrich_row sm r None # b) = dropna_rows (a @ b)"
  by (simp add: dropna_rows_def List.map_filter_def observe_enrich_row split: option.splits)

lemma generate_cong:
  "enrich sm t1 = enrich sm t2 \<Longrightarrow>
   first_valid (map PO_Number t1) = first_valid (map PO_Number t2) \<Longrightarrow>
   first_valid (map Ship_Dates t1) = first_valid (map Ship_Dates t2) \<Longrightarrow>
   generate_pivot_excel sm t1 = generate_pivot_excel sm t2"
  by (simp add: generate_pivot_excel_def cong: sum.case_cong)

lemma build_pivot_dropna:
  "dropna_rows df = dropna_rows df' \<Longrightarrow> build_pivot df = build_pivot df'"
  by (simp add: build_pivot_def)

lemma parse_size_absent:
  assumes "Size r = None \<or>
     (\<exists>s. Size r = Some s \<and> CHR '' '' \<notin> set (strip s) \<and> py_float (strip s) = None)"
  shows "parse_size (Size r) = Inr None"
  using assms by (auto simp: parse_size_def)

subsection \<open>Evaluation rules for concrete inputs\<close>

lemmas num_defs =
  strip_def is_space_def py_float_def py_Fraction_def parse_decimal_def parse_mantissa_def
  parse_exponent_def is_digit_def digits_val_def digit_val_def all_digits_def apply_sign_def
  scale10_def

lemmas enrich_defs = enrich_row_def style_label_def unknown_style_def vendor_style_def
  to_numeric_def str_strip_def qty_of_def fillna0_def parse_size_def

lemmas pivot_defs =
  generate_pivot_excel_def build_pivot_def dropna_rows_def observe_def pivot_table_def Let_def
  o_key_def o_size_def o_qty_def body_row_def margin_row_def margin_key_def margins_name_def
  cell_sum_def row_total_def col_total_def all_total_def drop_All_def select_columns_def
  select_cells_def example_row_def example_styles_def

lemma example_run: "generate_pivot_excel example_styles example_table = Inr example_sheet"
  by (simp add: example_table_def example_sheet_def pivot_defs enrich_defs num_defs)

lemma example_run_unparsed:
  "generate_pivot_excel example_styles
     [example_row ''1001'' ''3'' ''8'' ''Red'', example_row ''1001'' ''5'' ''M'' ''Red''] =
   Inr \<lparr>xl_table =
          \<lparr>size_cols = [8], total_col = True,
           grid_rows =
             [\<lparr>row_key = (''Red'', ''StyleA'', ''StyleX''), cells = [3], grand_total = 3\<rparr>,
              \<lparr>row_key = (''Grand Total'', [], []), cells = [3], grand_total = 3\<rparr>]\<rparr>,
        xl_po_number = ''PO123'', xl_ship_date = ''2024-01-01''\<rparr>"
  by (simp add: pivot_defs enrich_defs num_defs)

lemma example_run_All:
  "generate_pivot_excel example_styles
     [example_row ''1001'' ''3'' ''8'' ''Red'', example_row ''1001'' ''5'' ''9'' ''All''] =
   Inr \<lparr>xl_table =
          \<lparr>size_cols = [8, 9], total_col = True,
           grid_rows =
             [\<lparr>row_key = (''Red'', ''StyleA'', ''StyleX''), cells = [3, 0], grand_total = 3\<rparr>,
              \<lparr>row_key = (''Grand Total'', [], []), cells = [3, 5], grand_total = 8\<rparr>]\<rparr>,
        xl_po_number = ''PO123'', xl_ship_date = ''2024-01-01''\<rparr>"
  by (simp add: pivot_defs enrich_defs num_defs)

lemma example_run_blank:
  "generate_pivot_excel example_styles
     [example_row ''1001'' ''3'' ''8'' ''Red'', example_row ''1001'' [] ''9'' ''Blue''] =
   Inr \<lparr>xl_table =
          \<lparr>size_cols = [8, 9], total_col = True,
           grid_rows =
             [\<lparr>row_key = (''Blue'', ''StyleA'', ''StyleX''), cells = [0, 0], grand_total = 0\<rparr>,
              \<lparr>row_key = (''Red'', ''StyleA'', ''StyleX''), cells = [3, 0], grand_total = 3\<rparr>,
              \<lparr>row_key = (''Grand Total'', [], []), cells = [3, 0], grand_total = 3\<rparr>]\<rparr>,
        xl_po_number = ''PO123'', xl_ship_date = ''2024-01-01''\<rparr>"
  by (simp add: pivot_defs enrich_defs num_defs)

lemma qty_of_zero_str: "qty_of (r\<lparr>Qty_per_Store := Some ''0''\<rparr>) = 0"
  by (simp add: qty_of_def fillna0_def to_numeric_def num_defs)

section \<open>The claims\<close>

subsection \<open>The size parser\<close>



text \<open>
  Claim C3 says that the size parser never raises. The branch for a size with a space is
  outside the \<open>try\<close>: a third piece after the split (\<open>10 1/2 W\<close>, or two spaces in a
  row), a piece that is no number and a zero denominator all raise, and the exception
  of one line ends the whole run.
\<close>

theorem parse_size_raises:
  "parse_size (Some ''10 1/2 W'') = Inl ValueError
   \<and> parse_size (Some ''10  1/2'') = Inl ValueError
   \<and> parse_size (Some ''One Size'') = Inl ValueError
   \<and> parse_size (Some ''10 1/0'') = Inl ZeroDivisionError
   \<and> generate_pivot_excel sm (r\<lparr>Size := Some ''10 1/2 W''\<rparr> # ys) = Inl ValueError"
proof -
  have a: "parse_size (Some ''10 1/2 W'') = Inl ValueError"
    by (simp add: parse_size_def num_defs)
  have "generate_pivot_excel sm (r\<lparr>Size := Some ''10 1/2 W''\<rparr> # ys) = Inl ValueError"
    by (simp add: generate_pivot_excel_def a)
  moreover have "parse_size (Some ''10  1/2'') = Inl ValueError"
    by (simp add: parse_size_def num_defs)
  moreover have "parse_size (Some ''One Size'') = Inl ValueError"
    by (simp add: parse_size_def num_defs)
  moreover have "parse_size (Some ''10 1/0'') = Inl ZeroDivisionError"
    by (simp add: parse_size_def num_defs)
  ultimately show ?thesis using a by simp
qed

subsection \<open>The row enricher\<close>

text \<open>
  Claim C6. For every line of the input: if the numeric vendor code read from
  \<open>UPC/EAN\<close> is a key of the style table, both labels are the ones the table stores
  for that code (its \<open>KPR\<close> and \<open>Marks\<close> entries); if the field is not numeric
  (the code is missing) or the code is not a key of the table, both labels are
  \<open>Unknown Style\<close>.
\<close>

theorem style_labels_resolved:
  assumes "enrich sm t = Inr df" and "i < length t"
  shows "(\<forall>code entry k m.
            vendor_style (t ! i) = Some code \<and> sm code = Some entry \<and>
            entry ''KPR'' = Some k \<and> entry ''Marks'' = Some m \<longrightarrow>
            df_KPR_Style (df ! i) = k \<and> df_Marks_Style (df ! i) = m)
       \<and> (vendor_style (t ! i) = None \<or>
            (\<exists>code. vendor_style (t ! i) = Some code \<and> sm code = None) \<longrightarrow>
            df_KPR_Style (df ! i) = ''Unknown Style'' \<and>
            df_Marks_Style (df ! i) = ''Unknown Style'')"
  unfolding enrich_nth [OF assms]
  by (auto simp: enrich_row_def style_label_def unknown_style_def)

theorem style_labels_resolved_witness:
  "enrich example_styles
      [example_row ''1001'' ''3'' ''8'' ''Red'', example_row ''ABC'' ''3'' ''8'' ''Red'',
       example_row ''77'' ''3'' ''8'' ''Red''] =
     Inr [\<lparr>df_Color = Some ''Red'', df_KPR_Style = ''StyleA'', df_Marks_Style = ''StyleX'',
            df_Qty = 3, df_Size = Some 8\<rparr>,
          \<lparr>df_Color = Some ''Red'', df_KPR_Style = ''Unknown Style'',
            df_Marks_Style = ''Unknown Style'', df_Qty = 3, df_Size = Some 8\<rparr>,
          \<lparr>df_Color = Some ''Red'', df_KPR_Style = ''Unknown Style'',
            df_Marks_Style = ''Unknown Style'', df_Qty = 3, df_Size = Some 8\<rparr>]
   \<and> vendor_style (example_row ''1001'' ''3'' ''8'' ''Red'') = Some 1001
   \<and> example_styles 1001 = Some [''KPR'' \<mapsto> ''StyleA'', ''Marks'' \<mapsto> ''StyleX'']
   \<and> vendor_style (example_row ''ABC'' ''3'' ''8'' ''Red'') = None
   \<and> vendor_style (example_row ''77'' ''3'' ''8'' ''Red'') = Some 77
   \<and> example_styles 77 = None"
proof -
  let ?t = "[example_row ''1001'' ''3'' ''8'' ''Red'', example_row ''ABC'' ''3'' ''8'' ''Red'',
       example_row ''77'' ''3'' ''8'' ''Red'']"
  let ?df = "[\<lparr>df_Color = Some ''Red'', df_KPR_Style = ''StyleA'', df_Marks_Style = ''StyleX'',
            df_Qty = 3, df_Size = Some 8\<rparr>,
          \<lparr>df_Color = Some ''Red'', df_KPR_Style = ''Unknown Style'',
            df_Marks_Style = ''Unknown Style'', df_Qty = 3, df_Size = Some 8\<rparr>,
          \<lparr>df_Color = Some ''Red'', df_KPR_Style = ''Unknown Style'',
            df_Marks_Style = ''Unknown Style'', df_Qty = 3, df_Size = Some 8\<rparr>]"
  have v: "vendor_style (example_row ''1001'' ''3'' ''8'' ''Red'') = Some 1001"
      "vendor_style (example_row ''ABC'' ''3'' ''8'' ''Red'') = None"
      "vendor_style (example_row ''77'' ''3'' ''8'' ''Red'') = Some 77"
    by (simp_all add: example_row_def vendor_style_def to_numeric_def str_strip_def num_defs)
  have s: "example_styles 77 = None"
      "example_styles 1001 = Some [''KPR'' \<mapsto> ''StyleA'', ''Marks'' \<mapsto> ''StyleX'']"
    by (simp_all add: example_styles_def)
  have e: "enrich example_styles ?t = Inr ?df"
    by (simp add: example_row_def example_styles_def enrich_defs num_defs)
  have "df_KPR_Style (?df ! 0) = ''StyleA'' \<and> df_Marks_Style (?df ! 0) = ''StyleX''"
    using style_labels_resolved [OF e, of 0] v s by simp
  moreover have "df_KPR_Style (?df ! 1) = ''Unknown Style'' \<and>
      df_Marks_Style (?df ! 1) = ''Unknown Style''"
    using style_labels_resolved [OF e, of 1] v s by simp
  moreover have "df_KPR_Style (?df ! 2) = ''Unknown Style'' \<and>
      df_Marks_Style (?df ! 2) = ''Unknown Style''"
    using style_labels_resolved [OF e, of 2] v s by simp
  ultimately show ?thesis using e v s by simp
qed

subsection \<open>The pivot aggregator\<close>

text \<open>
  Claim C4. Whenever the transform returns, every rendered row other than the
  \<open>Grand Total\<close> row has one cell per size column, and the cell of a size column is
  the sum of the derived quantities of the input lines whose colour and two style
  labels are the row's key and whose parsed size is the column's key; with no such
  line the cell holds 0. Quantities are exact rationals.
\<close>

theorem pivot_cell_sum:
  assumes "generate_pivot_excel sm t = Inr out"
    and "r \<in> set (grid_rows (xl_table out))"
    and "row_key r \<noteq> margin_key"
    and "j < length (size_cols (xl_table out))"
  shows "length (cells r) = length (size_cols (xl_table out)) \<and>
     cells r ! j =
       sum_list (map qty_of (filter (\<lambda>x. Color x = Some (fst (row_key r)) \<and>
         style_label sm ''KPR'' (vendor_style x) = fst (snd (row_key r)) \<and>
         style_label sm ''Marks'' (vendor_style x) = snd (snd (row_key r)) \<and>
         parse_size (Size x) = Inr (Some (size_cols (xl_table out) ! j))) t)) \<and>
     (filter (\<lambda>x. Color x = Some (fst (row_key r)) \<and>
         style_label sm ''KPR'' (vendor_style x) = fst (snd (row_key r)) \<and>
         style_label sm ''Marks'' (vendor_style x) = snd (snd (row_key r)) \<and>
         parse_size (Size x) = Inr (Some (size_cols (xl_table out) ! j))) t = [] \<longrightarrow>
      cells r ! j = 0)"
proof -
  from assms(1) obtain df where e: "enrich sm t = Inr df"
    and rows: "grid_rows (xl_table out) =
           map (body_row (dropna_rows df) (size_cols (xl_table out)))
             (filter (\<lambda>k. fst k \<noteq> ''All'') (sort (remdups (map o_key (dropna_rows df)))))
           @ [margin_row (dropna_rows df) (size_cols (xl_table out))]"
    by (rule rendered_rows)
  from assms(2,3) rows obtain k where
    r: "r = body_row (dropna_rows df) (size_cols (xl_table out)) k"
    by (auto simp: margin_row_def)
  have c: "cells r = map (cell_sum (dropna_rows df) k) (size_cols (xl_table out))"
    and k: "row_key r = k"
    by (simp_all add: r body_row_def)
  have "cells r ! j = cell_sum (dropna_rows df) k (size_cols (xl_table out) ! j)"
    using assms(4) by (simp add: c)
  then show ?thesis
    by (simp add: c k cell_sum_input [OF e])
qed

theorem pivot_cell_sum_witness:
  "generate_pivot_excel example_styles example_table = Inr example_sheet
   \<and> \<lparr>row_key = (''Red'', ''StyleA'', ''StyleX''), cells = [3, 5], grand_total = 8\<rparr>
       \<in> set (grid_rows (xl_table example_sheet))
   \<and> (''Red'', ''StyleA'', ''StyleX'') \<noteq> margin_key
   \<and> (1::nat) < length (size_cols (xl_table example_sheet))
   \<and> size_cols (xl_table example_sheet) ! 1 = 17 / 2
   \<and> sum_list (map qty_of (filter (\<lambda>x. Color x = Some ''Red'' \<and>
         style_label example_styles ''KPR'' (vendor_style x) = ''StyleA'' \<and>
         style_label example_styles ''Marks'' (vendor_style x) = ''StyleX'' \<and>
         parse_size (Size x) = Inr (Some (17 / 2))) example_table)) = 5"
proof -
  let ?r = "\<lparr>row_key = (''Red'', ''StyleA'', ''StyleX''), cells = [3, 5], grand_total = 8\<rparr>"
  have m: "?r \<in> set (grid_rows (xl_table example_sheet))"
    by (simp add: example_sheet_def)
  have nk: "row_key ?r \<noteq> margin_key"
    by (simp add: margin_key_def margins_name_def)
  have j: "1 < length (size_cols (xl_table example_sheet))"
    by (simp add: example_sheet_def)
  have s: "size_cols (xl_table example_sheet) ! 1 = 17 / 2"
    by (simp add: example_sheet_def)
  have "cells ?r ! 1 =
      sum_list (map qty_of (filter (\<lambda>x. Color x = Some ''Red'' \<and>
         style_label example_styles ''KPR'' (vendor_style x) = ''StyleA'' \<and>
         style_label example_styles ''Marks'' (vendor_style x) = ''StyleX'' \<and>
         parse_size (Size x) = Inr (Some (size_cols (xl_table example_sheet) ! 1)))
       example_table))"
    using pivot_cell_sum [OF example_run m nk j] by simp
  then have "sum_list (map qty_of (filter (\<lambda>x. Color x = Some ''Red'' \<and>
         style_label example_styles ''KPR'' (vendor_style x) = ''StyleA'' \<and>
         style_label example_styles ''Marks'' (vendor_style x) = ''StyleX'' \<and>
         parse_size (Size x) = Inr (Some (17 / 2))) example_table)) = 5"
    unfolding s by simp
  with example_run m nk j s show ?thesis by simp
qed



subsection \<open>The row of the margins and the filter of line 52\<close>

text \<open>
  Claim C1 says that the synthetic \<open>Grand Total\<close> row is removed before output. The
  margins are named \<open>Grand Total\<close>, so the row has the key \<open>(Grand Total, '', '')\<close>,
  and line 52 removes the rows whose colour is \<open>All\<close>: in the end-to-end scenario the
  second rendered row is the \<open>Grand Total\<close> row.
\<close>

theorem grand_total_row_rendered:
  "generate_pivot_excel example_styles example_table = Inr example_sheet
   \<and> row_key (grid_rows (xl_table example_sheet) ! 1) = (''Grand Total'', [], [])
   \<and> length (grid_rows (xl_table example_sheet)) = 2"
  using example_run by (simp add: example_sheet_def)

text \<open>
  Claim C1 as amended. Whenever the transform returns, the \<open>Grand Total\<close> row is
  rendered as the last row and is the only row with that key, no rendered row before
  it has the colour \<open>All\<close>, and the \<open>Grand Total\<close> column is retained.
\<close>

theorem grand_total_row_kept:
  assumes "generate_pivot_excel sm t = Inr out"
  shows "grid_rows (xl_table out) \<noteq> []
    \<and> row_key (last (grid_rows (xl_table out))) = (''Grand Total'', [], [])
    \<and> (\<forall>r \<in> set (butlast (grid_rows (xl_table out))).
          row_key r \<noteq> (''Grand Total'', [], []) \<and> fst (row_key r) \<noteq> ''All'')
    \<and> total_col (xl_table out)"
proof -
  from assms obtain df where
    rows: "grid_rows (xl_table out) =
           map (body_row (dropna_rows df) (size_cols (xl_table out)))
             (filter (\<lambda>k. fst k \<noteq> ''All'') (sort (remdups (map o_key (dropna_rows df)))))
           @ [margin_row (dropna_rows df) (size_cols (xl_table out))]"
    and nm: "\<forall>k \<in> set (map o_key (dropna_rows df)). fst k \<noteq> margins_name"
    and tc: "total_col (xl_table out)"
    by (rule rendered_rows)
  have "row_key r \<noteq> (''Grand Total'', [], []) \<and> fst (row_key r) \<noteq> ''All''"
    if "r \<in> set (butlast (grid_rows (xl_table out)))" for r
  proof -
    from that obtain k where "r = body_row (dropna_rows df) (size_cols (xl_table out)) k"
      and "k \<in> set (map o_key (dropna_rows df))" and "fst k \<noteq> ''All''"
      unfolding rows by auto
    then show ?thesis using nm by (auto simp: body_row_def margins_name_def)
  qed
  then show ?thesis
    using tc by (simp add: rows margin_row_def margin_key_def margins_name_def)
qed

theorem grand_total_row_kept_witness:
  "generate_pivot_excel example_styles example_table = Inr example_sheet
   \<and> row_key (last (grid_rows (xl_table example_sheet))) = (''Grand Total'', [], [])
   \<and> butlast (grid_rows (xl_table example_sheet)) =
       [\<lparr>row_key = (''Red'', ''StyleA'', ''StyleX''), cells = [3, 5], grand_total = 8\<rparr>]
   \<and> total_col (xl_table example_sheet)"
  using grand_total_row_kept [OF example_run] example_run by (simp add: example_sheet_def)

text \<open>
  Claim C10. Whenever the transform returns, no rendered row has the colour \<open>All\<close>;
  the lines of that colour still count in the totals that are rendered: every cell of
  the last row (the \<open>Grand Total\<close> row) sums the quantities of all lines of its
  size, whatever their colour, and its \<open>Grand Total\<close> cell sums all lines that have
  a colour and a size.
\<close>

theorem color_All_rows_removed:
  assumes "generate_pivot_excel sm t = Inr out"
  shows "(\<forall>r \<in> set (grid_rows (xl_table out)). fst (row_key r) \<noteq> ''All'')
    \<and> (\<forall>j < length (size_cols (xl_table out)).
          cells (last (grid_rows (xl_table out))) ! j =
            sum_list (map qty_of (filter (\<lambda>x. Color x \<noteq> None \<and>
              parse_size (Size x) = Inr (Some (size_cols (xl_table out) ! j))) t)))
    \<and> grand_total (last (grid_rows (xl_table out))) =
          sum_list (map qty_of (filter (\<lambda>x. Color x \<noteq> None \<and>
              (\<exists>s. parse_size (Size x) = Inr (Some s))) t))"
proof -
  from assms obtain df where e: "enrich sm t = Inr df"
    and rows: "grid_rows (xl_table out) =
           map (body_row (dropna_rows df) (size_cols (xl_table out)))
             (filter (\<lambda>k. fst k \<noteq> ''All'') (sort (remdups (map o_key (dropna_rows df)))))
           @ [margin_row (dropna_rows df) (size_cols (xl_table out))]"
    by (rule rendered_rows)
  have l: "last (grid_rows (xl_table out)) = margin_row (dropna_rows df) (size_cols (xl_table out))"
    by (simp add: rows)
  have "\<forall>r \<in> set (grid_rows (xl_table out)). fst (row_key r) \<noteq> ''All''"
    unfolding rows by (auto simp: body_row_def margin_row_def margin_key_def margins_name_def)
  moreover have "\<forall>j < length (size_cols (xl_table out)).
          cells (last (grid_rows (xl_table out))) ! j =
            sum_list (map qty_of (filter (\<lambda>x. Color x \<noteq> None \<and>
              parse_size (Size x) = Inr (Some (size_cols (xl_table out) ! j))) t))"
    unfolding l by (simp add: margin_row_def col_total_input [OF e])
  moreover have "grand_total (last (grid_rows (xl_table out))) =
          sum_list (map qty_of (filter (\<lambda>x. Color x \<noteq> None \<and>
              (\<exists>s. parse_size (Size x) = Inr (Some s))) t))"
    unfolding l by (simp add: margin_row_def all_total_input [OF e])
  ultimately show ?thesis by blast
qed

theorem color_All_rows_removed_witness:
  "generate_pivot_excel example_styles
     [example_row ''1001'' ''3'' ''8'' ''Red'', example_row ''1001'' ''5'' ''9'' ''All''] =
   Inr \<lparr>xl_table =
          \<lparr>size_cols = [8, 9], total_col = True,
           grid_rows =
             [\<lparr>row_key = (''Red'', ''StyleA'', ''StyleX''), cells = [3, 0], grand_total = 3\<rparr>,
              \<lparr>row_key = (''Grand Total'', [], []), cells = [3, 5], grand_total = 8\<rparr>]\<rparr>,
        xl_po_number = ''PO123'', xl_ship_date = ''2024-01-01''\<rparr>
   \<and> sum_list (map qty_of (filter (\<lambda>x. Color x \<noteq> None \<and> parse_size (Size x) = Inr (Some 9))
         [example_row ''1001'' ''3'' ''8'' ''Red'', example_row ''1001'' ''5'' ''9'' ''All''])) = 5
   \<and> sum_list (map qty_of (filter (\<lambda>x. Color x \<noteq> None \<and>
         (\<exists>s. parse_size (Size x) = Inr (Some s)))
         [example_row ''1001'' ''3'' ''8'' ''Red'', example_row ''1001'' ''5'' ''9'' ''All''])) = 8"
proof -
  note th = color_All_rows_removed [OF example_run_All]
  have a: "sum_list (map qty_of (filter (\<lambda>x. Color x \<noteq> None \<and> parse_size (Size x) = Inr (Some 9))
         [example_row ''1001'' ''3'' ''8'' ''Red'', example_row ''1001'' ''5'' ''9'' ''All''])) = 5"
    using th [THEN conjunct2, THEN conjunct1, rule_format, of 1] by simp
  have b: "sum_list (map qty_of (filter (\<lambda>x. Color x \<noteq> None \<and>
         (\<exists>s. parse_size (Size x) = Inr (Some s)))
         [example_row ''1001'' ''3'' ''8'' ''Red'', example_row ''1001'' ''5'' ''9'' ''All''])) = 8"
    using th [THEN conjunct2, THEN conjunct2] by simp
  show ?thesis using example_run_All a b by simp
qed

subsection \<open>Lines without a size\<close>

text \<open>
  Claim C2 says that a line whose size is missing or unparsable still enters the
  aggregation, in a column of its own. \<open>pivot_table\<close> groups with \<open>dropna=True\<close>:
  in the example the line with size \<open>M\<close> and quantity 5 gets an absent size, and the
  table has the single column 8 and the totals 3.
\<close>

theorem unparsed_size_row_dropped_example:
  "parse_size (Size (example_row ''1001'' ''5'' ''M'' ''Red'')) = Inr None
   \<and> generate_pivot_excel example_styles
       [example_row ''1001'' ''3'' ''8'' ''Red'', example_row ''1001'' ''5'' ''M'' ''Red''] =
     Inr \<lparr>xl_table =
          \<lparr>size_cols = [8], total_col = True,
           grid_rows =
             [\<lparr>row_key = (''Red'', ''StyleA'', ''StyleX''), cells = [3], grand_total = 3\<rparr>,
              \<lparr>row_key = (''Grand Total'', [], []), cells = [3], grand_total = 3\<rparr>]\<rparr>,
        xl_po_number = ''PO123'', xl_ship_date = ''2024-01-01''\<rparr>
   \<and> qty_of (example_row ''1001'' ''5'' ''M'' ''Red'') = 5"
  using example_run_unparsed
  by (simp add: example_row_def parse_size_def qty_of_def fillna0_def to_numeric_def num_defs)

text \<open>
  Claim C2 as amended. For a line whose size field is missing, or has no space once
  stripped and is no number, the size parser returns an absent value, and the line is
  left out of the aggregation: whenever the transform returns, its table is the pivot
  of the other lines, with no column for the absent size and the line's quantity in no
  cell and no total.
\<close>

theorem absent_size_row_dropped:
  assumes "Size r = None \<or>
     (\<exists>s. Size r = Some s \<and> CHR '' '' \<notin> set (strip s) \<and> py_float (strip s) = None)"
    and "generate_pivot_excel sm (xs @ r # ys) = Inr out"
  shows "parse_size (Size r) = Inr None \<and>
     (\<exists>df. enrich sm (xs @ ys) = Inr df \<and> build_pivot df = Inr (xl_table out))"
proof -
  have p: "parse_size (Size r) = Inr None" using assms(1) by (rule parse_size_absent)
  from generate_Inr [OF assms(2)] obtain df where
    e: "enrich sm (xs @ r # ys) = Inr df" and b: "build_pivot df = Inr (xl_table out)" by blast
  from e obtain a c where a: "enrich sm xs = Inr a" and c: "enrich sm ys = Inr c"
    and df: "df = a @ enrich_row sm r None # c"
    by (auto simp: enrich_append p split: sum.splits)
  have "enrich sm (xs @ ys) = Inr (a @ c)" by (simp add: enrich_append a c)
  moreover have "build_pivot (a @ c) = Inr (xl_table out)"
    using b build_pivot_dropna [OF dropna_rows_absent [of a sm r c]] by (simp add: df)
  ultimately show ?thesis using p by blast
qed

theorem absent_size_row_dropped_witness:
  "Size (example_row ''1001'' ''5'' ''M'' ''Red'') = Some ''M'' \<and> CHR '' '' \<notin> set (strip ''M'')
   \<and> py_float (strip ''M'') = None
   \<and> generate_pivot_excel example_styles
       ([example_row ''1001'' ''3'' ''8'' ''Red''] @ example_row ''1001'' ''5'' ''M'' ''Red'' # []) =
     Inr \<lparr>xl_table =
          \<lparr>size_cols = [8], total_col = True,
           grid_rows =
             [\<lparr>row_key = (''Red'', ''StyleA'', ''StyleX''), cells = [3], grand_total = 3\<rparr>,
              \<lparr>row_key = (''Grand Total'', [], []), cells = [3], grand_total = 3\<rparr>]\<rparr>,
        xl_po_number = ''PO123'', xl_ship_date = ''2024-01-01''\<rparr>
   \<and> parse_size (Size (example_row ''1001'' ''5'' ''M'' ''Red'')) = Inr None
   \<and> (\<exists>df. enrich example_styles ([example_row ''1001'' ''3'' ''8'' ''Red''] @ []) = Inr df \<and>
         build_pivot df = Inr \<lparr>size_cols = [8], total_col = True,
           grid_rows =
             [\<lparr>row_key = (''Red'', ''StyleA'', ''StyleX''), cells = [3], grand_total = 3\<rparr>,
              \<lparr>row_key = (''Grand Total'', [], []), cells = [3], grand_total = 3\<rparr>]\<rparr>)"
proof -
  let ?r = "example_row ''1001'' ''5'' ''M'' ''Red''"
  have h: "Size ?r = Some ''M''" "CHR '' '' \<notin> set (strip ''M'')" "py_float (strip ''M'') = None"
    by (simp_all add: example_row_def num_defs)
  then have h1: "Size ?r = None \<or>
     (\<exists>s. Size ?r = Some s \<and> CHR '' '' \<notin> set (strip s) \<and> py_float (strip s) = None)"
    by blast
  have run: "generate_pivot_excel example_styles ([example_row ''1001'' ''3'' ''8'' ''Red''] @ ?r # []) =
     Inr \<lparr>xl_table =
          \<lparr>size_cols = [8], total_col = True,
           grid_rows =
             [\<lparr>row_key = (''Red'', ''StyleA'', ''StyleX''), cells = [3], grand_total = 3\<rparr>,
              \<lparr>row_key = (''Grand Total'', [], []), cells = [3], grand_total = 3\<rparr>]\<rparr>,
        xl_po_number = ''PO123'', xl_ship_date = ''2024-01-01''\<rparr>"
    using example_run_unparsed by simp
  from absent_size_row_dropped [OF h1 run] h run show ?thesis by simp
qed

subsection \<open>Quantities\<close>

text \<open>
  Claim C8. For a line whose \<open>Qty per Store #\<close> field is blank (missing) or no number,
  the derived quantity is 0, and the line is treated as any other: the run behaves as
  if the field were \<open>0\<close> (same result, same error if any), and when the transform
  returns and the line has a colour other than \<open>All\<close> and a parsed size, its size is
  a column and its key is a rendered row.
\<close>

theorem blank_quantity_is_zero:
  assumes "Qty_per_Store r = None \<or> (\<exists>s. Qty_per_Store r = Some s \<and> py_float s = None)"
  shows "qty_of r = 0
    \<and> generate_pivot_excel sm (xs @ r # ys) =
        generate_pivot_excel sm (xs @ r\<lparr>Qty_per_Store := Some ''0''\<rparr> # ys)
    \<and> (\<forall>out c s. generate_pivot_excel sm (xs @ r # ys) = Inr out \<and> Color r = Some c \<and>
           c \<noteq> ''All'' \<and> parse_size (Size r) = Inr (Some s) \<longrightarrow>
         s \<in> set (size_cols (xl_table out)) \<and>
         (c, style_label sm ''KPR'' (vendor_style r), style_label sm ''Marks'' (vendor_style r))
           \<in> row_key ` set (grid_rows (xl_table out)))"
proof (intro conjI allI impI)
  show q: "qty_of r = 0"
    using assms by (auto simp: qty_of_def fillna0_def to_numeric_def)
  let ?r' = "r\<lparr>Qty_per_Store := Some ''0''\<rparr>"
  have "enrich_row sm ?r' z = enrich_row sm r z" for z
    by (simp add: enrich_row_def q qty_of_zero_str vendor_style_def)
  then have "enrich sm (?r' # ys) = enrich sm (r # ys)" by (simp cong: sum.case_cong)
  then have "enrich sm (xs @ ?r' # ys) = enrich sm (xs @ r # ys)"
    by (simp only: enrich_append)
  then show "generate_pivot_excel sm (xs @ r # ys) = generate_pivot_excel sm (xs @ ?r' # ys)"
    by (intro generate_cong) simp_all
next
  fix out c s
  assume a: "generate_pivot_excel sm (xs @ r # ys) = Inr out \<and> Color r = Some c \<and>
           c \<noteq> ''All'' \<and> parse_size (Size r) = Inr (Some s)"
  let ?k = "(c, style_label sm ''KPR'' (vendor_style r), style_label sm ''Marks'' (vendor_style r))"
  from a obtain df where e: "enrich sm (xs @ r # ys) = Inr df"
    and sz: "size_cols (xl_table out) = sort (remdups (map o_size (dropna_rows df)))"
    and rows: "grid_rows (xl_table out) =
           map (body_row (dropna_rows df) (size_cols (xl_table out)))
             (filter (\<lambda>k. fst k \<noteq> ''All'') (sort (remdups (map o_key (dropna_rows df)))))
           @ [margin_row (dropna_rows df) (size_cols (xl_table out))]"
    by (blast elim: rendered_rows)
  have "(?k, s, qty_of r) \<in> set (dropna_rows df)"
    unfolding set_dropna_enrich [OF e] using a by auto
  then have s: "s \<in> set (map o_size (dropna_rows df))" and k: "?k \<in> set (map o_key (dropna_rows df))"
    by (force simp: o_size_def o_key_def)+
  show "s \<in> set (size_cols (xl_table out))" using s by (simp add: sz)
  have "body_row (dropna_rows df) (size_cols (xl_table out)) ?k \<in> set (grid_rows (xl_table out))"
    unfolding rows using k a by auto
  then show "?k \<in> row_key ` set (grid_rows (xl_table out))"
    by (force simp: body_row_def)
qed

theorem blank_quantity_is_zero_witness:
  "Qty_per_Store (example_row ''1001'' [] ''9'' ''Blue'') = Some [] \<and> py_float [] = None
   \<and> qty_of (example_row ''1001'' [] ''9'' ''Blue'') = 0
   \<and> generate_pivot_excel example_styles
       ([example_row ''1001'' ''3'' ''8'' ''Red''] @ example_row ''1001'' [] ''9'' ''Blue'' # []) =
     Inr \<lparr>xl_table =
          \<lparr>size_cols = [8, 9], total_col = True,
           grid_rows =
             [\<lparr>row_key = (''Blue'', ''StyleA'', ''StyleX''), cells = [0, 0], grand_total = 0\<rparr>,
              \<lparr>row_key = (''Red'', ''StyleA'', ''StyleX''), cells = [3, 0], grand_total = 3\<rparr>,
              \<lparr>row_key = (''Grand Total'', [], []), cells = [3, 0], grand_total = 3\<rparr>]\<rparr>,
        xl_po_number = ''PO123'', xl_ship_date = ''2024-01-01''\<rparr>
   \<and> Color (example_row ''1001'' [] ''9'' ''Blue'') = Some ''Blue''
   \<and> parse_size (Size (example_row ''1001'' [] ''9'' ''Blue'')) = Inr (Some 9)
   \<and> generate_pivot_excel example_styles
       ([example_row ''1001'' ''3'' ''8'' ''Red''] @
        (example_row ''1001'' [] ''9'' ''Blue'')\<lparr>Qty_per_Store := Some ''0''\<rparr> # []) =
      generate_pivot_excel example_styles
       ([example_row ''1001'' ''3'' ''8'' ''Red''] @ example_row ''1001'' [] ''9'' ''Blue'' # [])"
proof -
  let ?r = "example_row ''1001'' [] ''9'' ''Blue''"
  have h: "Qty_per_Store ?r = Some []" "py_float [] = None" "Color ?r = Some ''Blue''"
      "parse_size (Size ?r) = Inr (Some 9)"
    by (simp_all add: example_row_def parse_size_def num_defs)
  then have h1: "Qty_per_Store ?r = None \<or> (\<exists>s. Qty_per_Store ?r = Some s \<and> py_float s = None)"
    by blast
  note th = blank_quantity_is_zero [OF h1, of example_styles "[example_row ''1001'' ''3'' ''8'' ''Red'']" "[]"]
  show ?thesis using th h example_run_blank by simp
qed

subsection \<open>Determinism\<close>



end
